theory Spec2Isabelle
  imports Main
begin

section \<open>JavaScript strings: code units, white space, \<open>trim\<close>, \<open>indexOf\<close>\<close>

text \<open>
  A JavaScript string is modelled as a \<open>string\<close> (a list of 8-bit characters): the model
  covers the strings whose code units are below 256. The backslash cannot be written inside
  a string literal of the logic, so it has a name.
\<close>

abbreviation BSL :: char where "BSL \<equiv> CHR 0x5C"

definition isDigit :: "char \<Rightarrow> bool" where
  "isDigit c = (c \<in> set ''0123456789'')"

definition isWordChar :: "char \<Rightarrow> bool" where
  "isWordChar c =
     (c \<in> set ''abcdefghijklmnopqrstuvwxyzABCDEFGHIJKLMNOPQRSTUVWXYZ0123456789_'')"

definition isLineTerminator :: "char \<Rightarrow> bool" where
  "isLineTerminator c = (c = CHR 0x0A \<or> c = CHR 0x0D)"

text \<open>White space and line terminators: what \<open>\s\<close> matches and what \<open>trim\<close> removes.\<close>

definition isWhiteSpace :: "char \<Rightarrow> bool" where
  "isWhiteSpace c =
     (c = CHR 0x09 \<or> c = CHR 0x0A \<or> c = CHR 0x0B \<or> c = CHR 0x0C \<or> c = CHR 0x0D
      \<or> c = CHR 0x20 \<or> c = CHR 0xA0)"

definition trim :: "string \<Rightarrow> string" where
  "trim s = rev (dropWhile isWhiteSpace (rev (dropWhile isWhiteSpace s)))"

definition startsWith :: "string \<Rightarrow> string \<Rightarrow> bool" where
  "startsWith s p = (take (length p) s = p)"

fun indexOf :: "string \<Rightarrow> string \<Rightarrow> nat option" where
  "indexOf [] p = (if p = [] then Some 0 else None)"
| "indexOf (x # xs) p =
     (if startsWith (x # xs) p then Some 0 else map_option Suc (indexOf xs p))"

section \<open>Regular expressions\<close>

datatype citem =
    CChar char
  | CRange char char
  | CDigit | CNotDigit
  | CSpace | CNotSpace
  | CWord | CNotWord

datatype regex =
    Empty
  | Chr char
  | AnyChar
  | Class bool "citem list"
  | Bol
  | Eol
  | WordB bool
  | Seq regex regex
  | Alt regex regex
  | Star bool regex
  | Opt bool regex
  | Group nat regex

fun inItem :: "char \<Rightarrow> citem \<Rightarrow> bool" where
  "inItem y (CChar x) = (y = x)"
| "inItem y (CRange lo hi) = ((of_char lo :: nat) \<le> of_char y \<and> (of_char y :: nat) \<le> of_char hi)"
| "inItem y CDigit = isDigit y"
| "inItem y CNotDigit = (\<not> isDigit y)"
| "inItem y CSpace = isWhiteSpace y"
| "inItem y CNotSpace = (\<not> isWhiteSpace y)"
| "inItem y CWord = isWordChar y"
| "inItem y CNotWord = (\<not> isWordChar y)"

text \<open>The capture groups inside a term: a quantifier clears them before each iteration.\<close>

fun groupsOf :: "regex \<Rightarrow> nat list" where
  "groupsOf (Seq a b) = groupsOf a @ groupsOf b"
| "groupsOf (Alt a b) = groupsOf a @ groupsOf b"
| "groupsOf (Star g r) = groupsOf r"
| "groupsOf (Opt g r) = groupsOf r"
| "groupsOf (Group i r) = i # groupsOf r"
| "groupsOf _ = []"

type_synonym caps = "string option list"

definition reset :: "regex \<Rightarrow> caps \<Rightarrow> caps" where
  "reset r c = fold (\<lambda>i c'. c'[i := None]) (groupsOf r) c"

definition ngroups :: "regex \<Rightarrow> nat" where
  "ngroups r = fold max (groupsOf r) 0"

text \<open>
  The backtracking matcher. \<open>backtrack r p s c\<close> matches \<open>r\<close> at a position whose previous
  character is \<open>p\<close> (\<open>None\<close> at the start of the input) and whose remaining input is
  \<open>s\<close>, with the captures \<open>c\<close>; it returns every way to match, in the order in which the
  engine tries them, as the state after the match. Slot \<open>i\<close> of the captures belongs to
  group \<open>i\<close>; slot 0 is the whole match and is filled by \<open>exec\<close>.
  An iteration of a quantifier that consumes nothing is rejected, as in the language
  definition.
\<close>

function backtrack :: "regex \<Rightarrow> char option \<Rightarrow> string \<Rightarrow> caps \<Rightarrow> (char option \<times> string \<times> caps) list" where
  "backtrack Empty p s c = [(p, s, c)]"
| "backtrack (Chr x) p s c =
     (case s of [] \<Rightarrow> [] | y # ys \<Rightarrow> if y = x then [(Some y, ys, c)] else [])"
| "backtrack AnyChar p s c =
     (case s of [] \<Rightarrow> [] | y # ys \<Rightarrow> if isLineTerminator y then [] else [(Some y, ys, c)])"
| "backtrack (Class neg items) p s c =
     (case s of [] \<Rightarrow> []
      | y # ys \<Rightarrow> if list_ex (inItem y) items \<noteq> neg then [(Some y, ys, c)] else [])"
| "backtrack Bol p s c = (if p = None then [(p, s, c)] else [])"
| "backtrack Eol p s c = (if s = [] then [(p, s, c)] else [])"
| "backtrack (WordB pos) p s c =
     (let a = (case p of None \<Rightarrow> False | Some x \<Rightarrow> isWordChar x);
          b = (case s of [] \<Rightarrow> False | y # ys \<Rightarrow> isWordChar y)
      in if (a \<noteq> b) = pos then [(p, s, c)] else [])"
| "backtrack (Seq a b) p s c =
     concat (map (\<lambda>x. backtrack b (fst x) (fst (snd x)) (snd (snd x))) (backtrack a p s c))"
| "backtrack (Alt a b) p s c = backtrack a p s c @ backtrack b p s c"
| "backtrack (Star g r) p s c =
     (let its = concat (map (\<lambda>x. if length (fst (snd x)) < length s
                                   then backtrack (Star g r) (fst x) (fst (snd x)) (snd (snd x))
                                   else [])
                            (backtrack r p s (reset r c)))
      in if g then its @ [(p, s, c)] else (p, s, c) # its)"
| "backtrack (Opt g r) p s c =
     (let its = filter (\<lambda>x. length (fst (snd x)) < length s) (backtrack r p s (reset r c))
      in if g then its @ [(p, s, c)] else (p, s, c) # its)"
| "backtrack (Group i r) p s c =
     map (\<lambda>x. (fst x, fst (snd x),
                (snd (snd x))[i := Some (take (length s - length (fst (snd x))) s)]))
         (backtrack r p s c)"
  by pat_completeness auto
termination
  by (relation "inv_image (less_than <*lex*> less_than) (\<lambda>(r, p, s, c). (size r, length s))")
     auto

text \<open>
  \<open>RegExp.prototype.exec\<close> for a pattern without flags: the leftmost start position at
  which the pattern matches, with the first way to match there. The result is the index
  and the match array (slot 0 the matched text, slot \<open>i\<close> group \<open>i\<close>, \<open>None\<close> for
  \<open>undefined\<close>).
\<close>

fun execFrom :: "regex \<Rightarrow> nat \<Rightarrow> nat \<Rightarrow> char option \<Rightarrow> string \<Rightarrow> (nat \<times> caps) option" where
  "execFrom r n i p s =
     (case backtrack r p s (replicate (Suc n) None) of
        x # _ \<Rightarrow> Some (i, (snd (snd x))[0 := Some (take (length s - length (fst (snd x))) s)])
      | [] \<Rightarrow> (case s of [] \<Rightarrow> None | y # ys \<Rightarrow> execFrom r n (Suc i) (Some y) ys))"

definition exec :: "regex \<Rightarrow> string \<Rightarrow> (nat \<times> caps) option" where
  "exec r s = execFrom r (ngroups r) 0 None s"

definition test :: "regex \<Rightarrow> string \<Rightarrow> bool" where
  "test r s = (exec r s \<noteq> None)"


subsection \<open>Compiling a pattern source: \<open>new RegExp(source)\<close>\<close>

text \<open>
  The fragment of the pattern syntax that is modelled: characters, \<open>.\<close>, \<open>^\<close>, \<open>$\<close>,
  the class escapes \<open>\d \D \s \S \w \W\<close>, \<open>\b \B\<close>, the control escapes
  \<open>\n \t \r \f \v\<close>, identity escapes, character classes with ranges and negation,
  capturing and non-capturing groups, alternation and the quantifiers \<open>* + ?\<close>, greedy
  or lazy. A malformed pattern is \<open>SyntaxError\<close>, the exception the constructor throws.
  A pattern that uses syntax outside the fragment (lookaround, named groups,
  backreferences, braced quantifiers, numeric, hexadecimal, unicode and control-letter
  escapes) is \<open>Unsupported\<close>: the model does not say what the engine does with it.
  \<open>RangeError\<close> is the third exception of the model: \<open>fs.watchFile\<close> throws it.
\<close>

datatype error = SyntaxError | Unsupported | RangeError

datatype ctok = CItem citem | CDash

fun ctokChar :: "ctok \<Rightarrow> char option" where
  "ctokChar (CItem (CChar c)) = Some c"
| "ctokChar CDash = Some CHR ''-''"
| "ctokChar _ = None"

fun ctokItem :: "ctok \<Rightarrow> citem" where
  "ctokItem (CItem i) = i"
| "ctokItem CDash = CChar CHR ''-''"

text \<open>
  The atoms of a class, left to right: an atom, an unescaped dash and another atom are a
  range when both ends are single characters (an error when the range is out of order),
  and three members of the class otherwise.
\<close>

fun mkRanges :: "ctok list \<Rightarrow> citem list option" where
  "mkRanges [] = Some []"
| "mkRanges (x # CDash # y # rest) =
     (case (ctokChar x, ctokChar y) of
        (Some a, Some b) \<Rightarrow>
          if (of_char a :: nat) \<le> of_char b
          then map_option (\<lambda>is. CRange a b # is) (mkRanges rest) else None
      | _ \<Rightarrow> map_option (\<lambda>is. ctokItem x # CChar CHR ''-'' # ctokItem y # is) (mkRanges rest))"
| "mkRanges (x # rest) = map_option (\<lambda>is. ctokItem x # is) (mkRanges rest)"

definition classEscape :: "char \<Rightarrow> citem option" where
  "classEscape e =
     (if e = CHR ''d'' then Some CDigit else if e = CHR ''D'' then Some CNotDigit
      else if e = CHR ''s'' then Some CSpace else if e = CHR ''S'' then Some CNotSpace
      else if e = CHR ''w'' then Some CWord else if e = CHR ''W'' then Some CNotWord
      else if e = CHR ''b'' then Some (CChar (CHR 0x08))
      else if e = CHR ''n'' then Some (CChar (CHR 0x0A))
      else if e = CHR ''t'' then Some (CChar (CHR 0x09))
      else if e = CHR ''r'' then Some (CChar (CHR 0x0D))
      else if e = CHR ''f'' then Some (CChar (CHR 0x0C))
      else if e = CHR ''v'' then Some (CChar (CHR 0x0B))
      else if isDigit e \<or> e \<in> set ''xuck'' then None
      else Some (CChar e))"

text \<open>An atom outside a class, with whether a quantifier may follow it.\<close>

definition atomEscape :: "char \<Rightarrow> (regex \<times> bool) option" where
  "atomEscape e =
     (if e = CHR ''b'' then Some (WordB True, False)
      else if e = CHR ''B'' then Some (WordB False, False)
      else map_option (\<lambda>i. (case i of CChar c \<Rightarrow> Chr c | _ \<Rightarrow> Class False [i], True))
             (classEscape e))"

text \<open>
  The parser keeps the group being read as a frame: its capture index (\<open>None\<close> for a
  non-capturing group and for the whole pattern), the alternatives already closed and the
  terms of the current alternative, both newest first. The enclosing groups are a stack.
\<close>

datatype frame = Frame "nat option" "regex list" "(regex \<times> bool) list"

fun seqs :: "regex list \<Rightarrow> regex" where
  "seqs [] = Empty"
| "seqs [r] = r"
| "seqs (r # rs) = Seq r (seqs rs)"

fun alts :: "regex list \<Rightarrow> regex" where
  "alts [] = Empty"
| "alts [r] = r"
| "alts (r # rs) = Alt r (alts rs)"

fun push :: "regex \<times> bool \<Rightarrow> frame \<Rightarrow> frame" where
  "push a (Frame k as cur) = Frame k as (a # cur)"

fun nextAlt :: "frame \<Rightarrow> frame" where
  "nextAlt (Frame k as cur) = Frame k (seqs (rev (map fst cur)) # as) []"

fun closeFrame :: "frame \<Rightarrow> regex" where
  "closeFrame (Frame k as cur) =
     (let body = alts (rev (seqs (rev (map fst cur)) # as))
      in case k of None \<Rightarrow> body | Some i \<Rightarrow> Group i body)"

fun quantify :: "char \<Rightarrow> bool \<Rightarrow> frame \<Rightarrow> frame option" where
  "quantify q g (Frame k as ((a, True) # cur)) =
     Some (Frame k as
       ((if q = CHR ''*'' then Star g a else if q = CHR ''+'' then Seq a (Star g a) else Opt g a,
         False) # cur))"
| "quantify q g _ = None"

text \<open>Whether the text after an opening brace completes a braced quantifier.\<close>

definition bracedQuantifier :: "string \<Rightarrow> bool" where
  "bracedQuantifier s =
     (case dropWhile isDigit s of
        [] \<Rightarrow> False
      | y # ys \<Rightarrow>
          takeWhile isDigit s \<noteq> [] \<and>
          (y = CHR ''}'' \<or>
           (y = CHR '','' \<and> (case dropWhile isDigit ys of [] \<Rightarrow> False | z # zs \<Rightarrow> z = CHR ''}''))))"

datatype pmode = PNormal | PClass bool "ctok list"

fun parse :: "nat \<Rightarrow> frame \<Rightarrow> frame list \<Rightarrow> pmode \<Rightarrow> string \<Rightarrow> error + regex" where
  "parse n cur stk PNormal [] = (if stk = [] then Inr (closeFrame cur) else Inl SyntaxError)"
| "parse n cur stk (PClass neg acc) [] = Inl SyntaxError"
| "parse n cur stk (PClass neg acc) (x # xs) =
     (if x = CHR '']'' then
        (case mkRanges (rev acc) of
           None \<Rightarrow> Inl SyntaxError
         | Some items \<Rightarrow> parse n (push (Class neg items, True) cur) stk PNormal xs)
      else if x = BSL then
        (case xs of
           [] \<Rightarrow> Inl SyntaxError
         | e # es \<Rightarrow>
             (case classEscape e of
                None \<Rightarrow> Inl Unsupported
              | Some it \<Rightarrow> parse n cur stk (PClass neg (CItem it # acc)) es))
      else if x = CHR ''-'' then parse n cur stk (PClass neg (CDash # acc)) xs
      else parse n cur stk (PClass neg (CItem (CChar x) # acc)) xs)"
| "parse n cur stk PNormal (x # xs) =
     (if x = BSL then
        (case xs of
           [] \<Rightarrow> Inl SyntaxError
         | e # es \<Rightarrow>
             (case atomEscape e of
                None \<Rightarrow> Inl Unsupported
              | Some a \<Rightarrow> parse n (push a cur) stk PNormal es))
      else if x = CHR ''['' then
        (case xs of
           [] \<Rightarrow> Inl SyntaxError
         | y # ys \<Rightarrow>
             if y = CHR ''^'' then parse n cur stk (PClass True []) ys
             else parse n cur stk (PClass False []) xs)
      else if x = CHR ''('' then
        (case xs of
           [] \<Rightarrow> Inl SyntaxError
         | y # ys \<Rightarrow>
             if y = CHR ''?'' then
               (case ys of
                  [] \<Rightarrow> Inl SyntaxError
                | z # zs \<Rightarrow>
                    if z = CHR '':'' then parse n (Frame None [] []) (cur # stk) PNormal zs
                    else if z \<in> set ''=!<'' then Inl Unsupported
                    else Inl SyntaxError)
             else parse (Suc n) (Frame (Some (Suc n)) [] []) (cur # stk) PNormal xs)
      else if x = CHR '')'' then
        (case stk of
           [] \<Rightarrow> Inl SyntaxError
         | par # stk' \<Rightarrow> parse n (push (closeFrame cur, True) par) stk' PNormal xs)
      else if x = CHR ''|'' then parse n (nextAlt cur) stk PNormal xs
      else if x = CHR ''*'' \<or> x = CHR ''+'' \<or> x = CHR ''?'' then
        (case xs of
           [] \<Rightarrow>
             (case quantify x True cur of
                None \<Rightarrow> Inl SyntaxError
              | Some cur' \<Rightarrow> parse n cur' stk PNormal xs)
         | y # ys \<Rightarrow>
             if y = CHR ''?'' then
               (case quantify x False cur of
                  None \<Rightarrow> Inl SyntaxError
                | Some cur' \<Rightarrow> parse n cur' stk PNormal ys)
             else
               (case quantify x True cur of
                  None \<Rightarrow> Inl SyntaxError
                | Some cur' \<Rightarrow> parse n cur' stk PNormal xs))
      else if x = CHR ''{'' then
        (if bracedQuantifier xs then Inl Unsupported
         else parse n (push (Chr x, True) cur) stk PNormal xs)
      else if x = CHR ''.'' then parse n (push (AnyChar, True) cur) stk PNormal xs
      else if x = CHR ''^'' then parse n (push (Bol, False) cur) stk PNormal xs
      else if x = CHR ''$'' then parse n (push (Eol, False) cur) stk PNormal xs
      else parse n (push (Chr x, True) cur) stk PNormal xs)"

definition compile :: "string \<Rightarrow> error + regex" where
  "compile src = parse 0 (Frame None [] []) [] PNormal src"

subsection \<open>\<open>String.prototype.replace\<close>\<close>

text \<open>Reading a slot of a match array: \<open>undefined\<close> out of range.\<close>

definition arrayAt :: "caps \<Rightarrow> nat \<Rightarrow> string option" where
  "arrayAt arr i = (if i < length arr then arr ! i else None)"

text \<open>\<open>ToString\<close> of a value that is a string or \<open>undefined\<close>.\<close>

definition jsString :: "string option \<Rightarrow> string" where
  "jsString v = (case v of None \<Rightarrow> ''undefined'' | Some s \<Rightarrow> s)"

definition digitVal :: "char \<Rightarrow> nat" where
  "digitVal c = of_char c - 48"

text \<open>
  The replacement text for one match (\<open>GetSubstitution\<close>, without named groups):
  \<open>$$\<close> is a dollar sign, \<open>$&\<close> the matched text, \<open>$`\<close> the text before the match,
  \<open>$'\<close> the text after it, \<open>$n\<close> and \<open>$nn\<close> group \<open>n\<close> when the pattern has that
  many groups (the empty string when the group did not take part); anything else is
  copied.
\<close>

fun getSubstitution :: "string \<Rightarrow> string \<Rightarrow> nat \<Rightarrow> caps \<Rightarrow> string \<Rightarrow> string" where
  "getSubstitution matched str position captures [] = []"
| "getSubstitution matched str position captures (t # ts) =
     (if t \<noteq> CHR ''$'' then t # getSubstitution matched str position captures ts
      else case ts of
        [] \<Rightarrow> [t]
      | u # us \<Rightarrow>
          if u = CHR ''$'' then CHR ''$'' # getSubstitution matched str position captures us
          else if u = CHR ''&'' then matched @ getSubstitution matched str position captures us
          else if u = CHR 0x60 then
            take position str @ getSubstitution matched str position captures us
          else if u = CHR 0x27 then
            drop (position + length matched) str
              @ getSubstitution matched str position captures us
          else if isDigit u then
            (case us of
               [] \<Rightarrow>
                 (if 1 \<le> digitVal u \<and> digitVal u \<le> length captures
                  then (case captures ! (digitVal u - 1) of None \<Rightarrow> [] | Some g \<Rightarrow> g)
                  else [t, u])
             | v # vs \<Rightarrow>
                 if isDigit v \<and> 10 * digitVal u + digitVal v \<le> length captures then
                   (if 1 \<le> 10 * digitVal u + digitVal v
                    then (case captures ! (10 * digitVal u + digitVal v - 1) of
                            None \<Rightarrow> [] | Some g \<Rightarrow> g)
                    else [t, u, v])
                   @ getSubstitution matched str position captures vs
                 else
                   (if 1 \<le> digitVal u \<and> digitVal u \<le> length captures
                    then (case captures ! (digitVal u - 1) of None \<Rightarrow> [] | Some g \<Rightarrow> g)
                    else [t, u])
                   @ getSubstitution matched str position captures us)
          else t # getSubstitution matched str position captures ts)"

text \<open>\<open>s.replace(pattern, replacement)\<close> with a string pattern: the first occurrence.\<close>

definition replaceStr :: "string \<Rightarrow> string \<Rightarrow> string \<Rightarrow> string" where
  "replaceStr s pat repl =
     (case indexOf s pat of
        None \<Rightarrow> s
      | Some i \<Rightarrow> take i s @ getSubstitution pat s i [] repl @ drop (i + length pat) s)"

text \<open>\<open>s.replace(regexp, replacement)\<close> with a pattern without flags: the first match.\<close>

definition replaceRe :: "string \<Rightarrow> regex \<Rightarrow> string \<Rightarrow> string" where
  "replaceRe s r repl =
     (case exec r s of
        None \<Rightarrow> s
      | Some (i, arr) \<Rightarrow>
          (let matched = jsString (arrayAt arr 0)
           in take i s @ getSubstitution matched s i (tl arr) repl
                @ drop (i + length matched) s))"

text \<open>
  \<open>s.replace(/[\[\]]/g, "\\$&")\<close> and \<open>s.replace(/\$/g, "\\$")\<close>: a global replace
  whose pattern matches one character visits every character once; each square bracket,
  respectively each dollar sign, gets a backslash in front.
\<close>

definition escapeBrackets :: "string \<Rightarrow> string" where
  "escapeBrackets s =
     concat (map (\<lambda>c. if c = CHR ''['' \<or> c = CHR '']'' then [BSL, c] else [c]) s)"

definition escapeDollars :: "string \<Rightarrow> string" where
  "escapeDollars s = concat (map (\<lambda>c. if c = CHR ''$'' then [BSL, c] else [c]) s)"

section \<open>The extension\<close>

definition LOG_PREFIX :: string where
  "LOG_PREFIX = ''[Jira Commit Message]''"

record ExtensionConfig =
  commitMessagePrefixPattern :: regex
  commitMessageFormat :: string
  gitHeadWatchInterval :: int
  outdatedPrefixPattern :: regex

text \<open>
  The part of a repository of the Git extension that the code reads and writes: the name
  of the checked-out branch (\<open>state.HEAD?.name\<close>: \<open>None\<close> without a \<open>HEAD\<close>,
  \<open>Some None\<close> for a \<open>HEAD\<close> without a name) and the commit input box.
  \<open>inputBox_writes\<close> is a ghost field: it counts the assignments to \<open>inputBox.value\<close>.
\<close>

record Repository =
  rootUri_fsPath :: string
  HEAD_name :: "string option option"
  inputBox_value :: string
  inputBox_writes :: nat

text \<open>The literal \<open>/\(([^)]+)\)/\<close> of \<open>getExtensionConfig\<close>.\<close>

definition groupLiteral :: regex where
  "groupLiteral =
     Seq (Chr CHR ''('')
       (Seq (Group 1 (Seq (Class True [CChar CHR '')''])
                          (Star True (Class True [CChar CHR '')'']))))
            (Chr CHR '')''))"

text \<open>
  The source of the outdated-prefix pattern, as \<open>getExtensionConfig\<close> builds it from the
  two settings.
\<close>

definition outdatedPrefixSource :: "string \<Rightarrow> string \<Rightarrow> string" where
  "outdatedPrefixSource tagPattern msgFormat =
     (let prefixPattern =
            (case exec groupLiteral tagPattern of
               Some (i, mt) \<Rightarrow> jsString (arrayAt mt 1)
             | None \<Rightarrow> tagPattern)
      in escapeDollars (escapeBrackets
           (replaceStr
              (replaceStr msgFormat ''${prefix}'' (''('' @ prefixPattern @ '')''))
              ''${message}'' ''(.*)'')))"

text \<open>
  \<open>getExtensionConfig\<close>, with the three settings it reads from the workspace
  configuration as parameters. Either constructor call can throw.
\<close>

definition getExtensionConfig :: "string \<Rightarrow> string \<Rightarrow> int \<Rightarrow> error + ExtensionConfig" where
  "getExtensionConfig tagPattern msgFormat interval =
     (case compile tagPattern of
        Inl e \<Rightarrow> Inl e
      | Inr prefixRe \<Rightarrow>
          (case compile (outdatedPrefixSource tagPattern msgFormat) of
             Inl e \<Rightarrow> Inl e
           | Inr outdatedRe \<Rightarrow>
               Inr \<lparr>commitMessagePrefixPattern = prefixRe,
                    commitMessageFormat = msgFormat,
                    gitHeadWatchInterval = interval,
                    outdatedPrefixPattern = outdatedRe\<rparr>))"

definition defaultTagPattern :: string where
  "defaultTagPattern = ''(ML-'' @ [BSL] @ ''d+)-.*''"

definition defaultMsgFormat :: string where
  "defaultMsgFormat = ''[${prefix}] ${message}''"

definition extractCurrentMessage :: "Repository \<Rightarrow> ExtensionConfig \<Rightarrow> string" where
  "extractCurrentMessage repo config =
     replaceRe (inputBox_value repo) (outdatedPrefixPattern config) ''$2''"

text \<open>The source of \<open>prefixRegex\<close>: the template literal \<open>^\\[${prefix}\\]\\s\<close>.\<close>

definition prefixRegexSource :: "string option \<Rightarrow> string" where
  "prefixRegexSource prefix =
     ''^'' @ [BSL] @ ''['' @ jsString prefix @ [BSL] @ '']'' @ [BSL] @ ''s''"

definition getCommitMessage :: "string \<Rightarrow> string \<Rightarrow> ExtensionConfig \<Rightarrow> error + string" where
  "getCommitMessage branch currentMessage config =
     (if \<not> test (commitMessagePrefixPattern config) branch then Inr currentMessage
      else case exec (commitMessagePrefixPattern config) branch of
        None \<Rightarrow> Inr currentMessage
      | Some (i, prefixMatch) \<Rightarrow>
          (let prefix = arrayAt prefixMatch 1
           in case compile (prefixRegexSource prefix) of
                Inl e \<Rightarrow> Inl e
              | Inr prefixRegex \<Rightarrow>
                  if test prefixRegex currentMessage then Inr currentMessage
                  else
                    (let withoutExistingPrefix =
                           trim (replaceRe currentMessage (outdatedPrefixPattern config) []);
                         formattedMessage =
                           replaceStr
                             (replaceStr (commitMessageFormat config) ''${prefix}''
                                (jsString prefix))
                             ''${message}'' withoutExistingPrefix
                     in Inr formattedMessage)))"

definition branchOf :: "Repository \<Rightarrow> string" where
  "branchOf repo = (case HEAD_name repo of Some (Some n) \<Rightarrow> n | _ \<Rightarrow> [])"

definition updateCommitMessage ::
  "Repository \<Rightarrow> ExtensionConfig \<Rightarrow> string option \<Rightarrow> error + Repository" where
  "updateCommitMessage repo config currentMessage =
     (let branch = branchOf repo
      in if branch = [] then Inr repo
         else
           (let currentMessage' =
                  (case currentMessage of
                     None \<Rightarrow> extractCurrentMessage repo config
                   | Some c \<Rightarrow> c)
            in case getCommitMessage branch currentMessage' config of
                 Inl e \<Rightarrow> Inl e
               | Inr updatedMessage \<Rightarrow>
                   if inputBox_value repo \<noteq> updatedMessage
                   then Inr (repo\<lparr>inputBox_value := updatedMessage,
                                  inputBox_writes := Suc (inputBox_writes repo)\<rparr>)
                   else Inr repo))"

subsection \<open>The watcher of one repository\<close>

text \<open>
  The output channel is the list of the lines appended to it, oldest first. Of the file
  watchers only what the code keeps in its own fields is modelled: whether the watcher of
  \<open>.git/HEAD\<close> was created and the path of the branch ref file being watched. The
  callbacks of \<open>fs.readFile\<close> and \<open>fs.watchFile\<close> run later, as events of their own.
\<close>

record RepositoryWatcher =
  watcher_repo :: Repository
  watcher_config :: ExtensionConfig
  gitHeadWatcher :: bool
  refWatcher :: "string option"

text \<open>
  The \<open>message\<close> of a caught error. The engine words it; only its being one line of
  text matters here.
\<close>

definition errorMessage :: "error \<Rightarrow> string" where
  "errorMessage e =
     (case e of SyntaxError \<Rightarrow> ''Invalid regular expression''
              | Unsupported \<Rightarrow> ''Invalid regular expression (outside the modelled syntax)''
              | RangeError \<Rightarrow> ''The value of interval is out of range'')"

definition watcherLog :: "string \<Rightarrow> string list \<Rightarrow> string list" where
  "watcherLog message out = out @ [LOG_PREFIX @ '' [RepositoryWatcher] '' @ message]"

definition safeUpdateCommitMessage ::
  "RepositoryWatcher \<Rightarrow> string option \<Rightarrow> string list \<Rightarrow> RepositoryWatcher \<times> string list" where
  "safeUpdateCommitMessage w currentMessage out =
     (case updateCommitMessage (watcher_repo w) (watcher_config w) currentMessage of
        Inr repo' \<Rightarrow> (w\<lparr>watcher_repo := repo'\<rparr>, out)
      | Inl e \<Rightarrow> (w, watcherLog (''Error updating commit message: '' @ errorMessage e) out))"




text \<open>
  The command \<open>jira-commit-message.update-message\<close>: one pass for every repository, each
  inside its own \<open>try\<close>.
\<close>

fun updateMessageCommand ::
  "ExtensionConfig \<Rightarrow> Repository list \<Rightarrow> string list \<Rightarrow> Repository list \<times> string list" where
  "updateMessageCommand config [] out = ([], out)"
| "updateMessageCommand config (repo # repos) out =
     (case updateCommitMessage repo config None of
        Inr repo' \<Rightarrow>
          (let (rs, out') = updateMessageCommand config repos
                              (out @ [LOG_PREFIX @ '' Commit message updated via command.''])
           in (repo' # rs, out'))
      | Inl e \<Rightarrow>
          (let (rs, out') = updateMessageCommand config repos
                              (out @ [LOG_PREFIX @ '' Error executing update command: ''
                                        @ errorMessage e])
           in (repo # rs, out')))"

subsection \<open>Notions for stating the properties\<close>

text \<open>
  The characters that stand for themselves when they are put into the source of a
  pattern, outside a class: all but the backslash and \<open>[ ( ) | * + ? { . ^ $\<close>.
\<close>

definition literalChar :: "char \<Rightarrow> bool" where
  "literalChar c = (c \<notin> set (BSL # ''[()|*+?{.^$''))"

text \<open>
  The prefix that \<open>getCommitMessage\<close> takes from a branch, as the text it puts into the
  pattern of the fast path and into the format: \<open>None\<close> when the prefix pattern does
  not match the branch.
\<close>

definition extractedPrefix :: "ExtensionConfig \<Rightarrow> string \<Rightarrow> string option" where
  "extractedPrefix config branch =
     (case exec (commitMessagePrefixPattern config) branch of
        None \<Rightarrow> None
      | Some (i, prefixMatch) \<Rightarrow> Some (jsString (arrayAt prefixMatch 1)))"

subsection \<open>The configurations of the examples\<close>

text \<open>The compiled default settings: \<open>(ML-\d+)-.*\<close> and \<open>[${prefix}] ${message}\<close>.\<close>

definition issueKey :: "string \<Rightarrow> regex" where
  "issueKey project =
     seqs (map Chr project @ [Chr CHR ''-'', Class False [CDigit], Star True (Class False [CDigit])])"

definition bracketConfig :: "string \<Rightarrow> ExtensionConfig" where
  "bracketConfig project =
     \<lparr>commitMessagePrefixPattern =
        Seq (Group 1 (issueKey project)) (Seq (Chr CHR ''-'') (Star True AnyChar)),
      commitMessageFormat = defaultMsgFormat,
      gitHeadWatchInterval = 1000,
      outdatedPrefixPattern =
        Seq (Chr CHR ''['')
          (Seq (Group 1 (issueKey project))
            (Seq (Chr CHR '']'') (Seq (Chr CHR '' '') (Group 2 (Star True AnyChar)))))\<rparr>"

definition defaultConfig :: ExtensionConfig where
  "defaultConfig = bracketConfig ''ML''"

text \<open>The compiled settings \<open>(.*)\<close> and \<open>[${prefix}] ${message}\<close>: the whole branch name is the prefix.\<close>

definition wholeBranchConfig :: ExtensionConfig where
  "wholeBranchConfig =
     \<lparr>commitMessagePrefixPattern = Group 1 (Star True AnyChar),
      commitMessageFormat = defaultMsgFormat,
      gitHeadWatchInterval = 1000,
      outdatedPrefixPattern =
        Seq (Chr CHR ''['')
          (Seq (Group 1 (Star True AnyChar))
            (Seq (Chr CHR '']'') (Seq (Chr CHR '' '') (Group 2 (Star True AnyChar)))))\<rparr>"

text \<open>
  The compiled settings \<open>(PP-\d+)-.*\<close> and \<open>${prefix} ${message}\<close>, with the watch
  interval 50: the configuration of the extension's test suite.
\<close>

definition plainFormatConfig :: ExtensionConfig where
  "plainFormatConfig =
     \<lparr>commitMessagePrefixPattern =
        Seq (Group 1 (issueKey ''PP'')) (Seq (Chr CHR ''-'') (Star True AnyChar)),
      commitMessageFormat = ''${prefix} ${message}'',
      gitHeadWatchInterval = 50,
      outdatedPrefixPattern =
        Seq (Group 1 (issueKey ''PP'')) (Seq (Chr CHR '' '') (Group 2 (Star True AnyChar)))\<rparr>"

text \<open>A repository on a branch, with a message in its input box that was never written.\<close>

definition repoOn :: "string \<Rightarrow> string \<Rightarrow> Repository" where
  "repoOn branch message =
     \<lparr>rootUri_fsPath = ''/w'', HEAD_name = Some (Some branch),
      inputBox_value = message, inputBox_writes = 0\<rparr>"


section \<open>Properties\<close>

text \<open>
  The equation of the matcher for a quantifier calls the matcher for the same quantifier
  on the rest of the input, so it is unfolded by hand, one step at a time.
\<close>

declare backtrack.simps(10) [simp del]

lemma getExtensionConfig_default:
  "getExtensionConfig defaultTagPattern defaultMsgFormat 1000 = Inr defaultConfig"
  by code_simp

lemma getExtensionConfig_BY:
  "getExtensionConfig (''(BY-'' @ [BSL] @ ''d+)-.*'') defaultMsgFormat 1000
     = Inr (bracketConfig ''BY'')"
  by code_simp

lemma getExtensionConfig_whole:
  "getExtensionConfig ''(.*)'' defaultMsgFormat 1000 = Inr wholeBranchConfig"
  by code_simp

lemma inputBox_value_repoOn [simp]: "inputBox_value (repoOn branch message) = message"
  by (simp add: repoOn_def)

subsection \<open>Branches without an applicable prefix\<close>





lemma branchOf_empty_iff:
  "branchOf repo = [] \<longleftrightarrow>
   HEAD_name repo = None \<or> HEAD_name repo = Some None \<or> HEAD_name repo = Some (Some [])"
  by (auto simp: branchOf_def split: option.splits)

text \<open>
  C6. Without a branch name (no \<open>HEAD\<close>, a \<open>HEAD\<close> without a name, or an empty name)
  a synchronization pass changes nothing: the repository comes back as it was, input box
  and count of writes included, whatever the message is, and the watcher's pass logs
  nothing.
\<close>

theorem updateCommitMessage_without_branch:
  assumes "HEAD_name repo = None \<or> HEAD_name repo = Some None \<or> HEAD_name repo = Some (Some [])"
  shows "updateCommitMessage repo config currentMessage = Inr repo \<and>
         safeUpdateCommitMessage (w\<lparr>watcher_repo := repo\<rparr>) currentMessage out
           = (w\<lparr>watcher_repo := repo\<rparr>, out)"
proof -
  from assms have "branchOf repo = []"
    by (simp add: branchOf_empty_iff)
  then have pass: "updateCommitMessage repo cfg currentMessage = Inr repo" for cfg
    by (simp add: updateCommitMessage_def)
  then show ?thesis
    by (simp add: safeUpdateCommitMessage_def)
qed

theorem updateCommitMessage_without_branch_witness:
  "HEAD_name \<lparr>rootUri_fsPath = ''/w'', HEAD_name = Some None,
               inputBox_value = ''[ML-7] Old work'', inputBox_writes = 0\<rparr> = Some None \<and>
   updateCommitMessage
     \<lparr>rootUri_fsPath = ''/w'', HEAD_name = Some None,
      inputBox_value = ''[ML-7] Old work'', inputBox_writes = 0\<rparr> defaultConfig None
     = Inr \<lparr>rootUri_fsPath = ''/w'', HEAD_name = Some None,
            inputBox_value = ''[ML-7] Old work'', inputBox_writes = 0\<rparr>"
  using updateCommitMessage_without_branch
    [of "\<lparr>rootUri_fsPath = ''/w'', HEAD_name = Some None,
          inputBox_value = ''[ML-7] Old work'', inputBox_writes = 0\<rparr>" defaultConfig None]
  by simp

text \<open>
  C4. A prefix pattern without a capturing group, \<open>ML-\d+-.*\<close>, on the branch
  \<open>ML-42-x\<close>: the pattern matches, the match array has no slot 1, and
  \<open>getCommitMessage\<close> does not return the message \<open>Fix\<close> as it is; it renders the
  text \<open>undefined\<close> as the prefix.
\<close>

theorem getCommitMessage_without_capture_group:
  "(case getExtensionConfig (''ML-'' @ [BSL] @ ''d+-.*'') defaultMsgFormat 1000 of
      Inl e \<Rightarrow> None
    | Inr config \<Rightarrow>
        Some (map_option snd (exec (commitMessagePrefixPattern config) ''ML-42-x''),
              getCommitMessage ''ML-42-x'' ''Fix'' config))
   = Some (Some [Some ''ML-42-x''], Inr ''[undefined] Fix'')"
  by code_simp

subsection \<open>Stripping an outdated prefix\<close>

text \<open>
  C1. With the default configuration, on the branch \<open>ML-42-x\<close> and with the current
  message \<open>[ML-7] Old work\<close>, \<open>getCommitMessage\<close> replaces the whole match of the
  outdated-prefix pattern by the empty string: the result is \<open>[ML-42] \<close> and the text
  \<open>Old work\<close> is lost, also in a pass that is given this message. It is
  \<open>extractCurrentMessage\<close> that keeps the message group: a pass that reads the input box
  itself writes \<open>[ML-42] Old work\<close>.
\<close>

theorem getCommitMessage_stale_prefix:
  "getCommitMessage ''ML-42-x'' ''[ML-7] Old work'' defaultConfig = Inr ''[ML-42] '' \<and>
   updateCommitMessage (repoOn ''ML-42-x'' ''[ML-7] Old work'') defaultConfig
     (Some ''[ML-7] Old work'')
     = Inr ((repoOn ''ML-42-x'' ''[ML-42] '')\<lparr>inputBox_writes := 1\<rparr>) \<and>
   extractCurrentMessage (repoOn ''ML-42-x'' ''[ML-7] Old work'') defaultConfig = ''Old work'' \<and>
   updateCommitMessage (repoOn ''ML-42-x'' ''[ML-7] Old work'') defaultConfig None
     = Inr ((repoOn ''ML-42-x'' ''[ML-42] Old work'')\<lparr>inputBox_writes := 1\<rparr>)"
  by code_simp

subsection \<open>The derived outdated-prefix pattern\<close>

text \<open>
  C5. For the prefix pattern \<open>([A-Z]+-\d+)-.*\<close> and the default format, the square
  brackets of the character class inside the substituted group are escaped together with
  those of the format: the derived source is \<open>\[(\[A-Z\]+-\d+)\] (.*)\<close>. The pattern
  compiled from it does not match the tagged message \<open>[ML-7] Old work\<close>, and a pass on
  the branch \<open>ML-42-x\<close> puts the new prefix in front of the old one.
\<close>

theorem outdatedPrefixSource_character_class:
  "outdatedPrefixSource (''([A-Z]+-'' @ [BSL] @ ''d+)-.*'') defaultMsgFormat
     = [BSL] @ ''[('' @ [BSL] @ ''[A-Z'' @ [BSL] @ '']+-'' @ [BSL] @ ''d+)'' @ [BSL] @ ''] (.*)'' \<and>
   (case getExtensionConfig (''([A-Z]+-'' @ [BSL] @ ''d+)-.*'') defaultMsgFormat 1000 of
      Inl e \<Rightarrow> None
    | Inr config \<Rightarrow>
        Some (test (outdatedPrefixPattern config) ''[ML-7] Old work'',
              updateCommitMessage (repoOn ''ML-42-x'' ''[ML-7] Old work'') config None))
     = Some (False,
             Inr ((repoOn ''ML-42-x'' ''[ML-42] [ML-7] Old work'')\<lparr>inputBox_writes := 1\<rparr>))"
  by code_simp

lemma getSubstitution_group_2:
  "2 \<le> length captures \<Longrightarrow>
   getSubstitution matched str position captures ''$2''
     = (case captures ! 1 of None \<Rightarrow> [] | Some g \<Rightarrow> g)"
  by (simp add: isDigit_def digitVal_def)

text \<open>
  C10. \<open>extractCurrentMessage\<close> puts group 2 of the outdated-prefix pattern in the place
  of the match: a value of the input box that the pattern does not match comes back as it
  is, and a match whose array has a slot 2 is replaced by that slot (by nothing when the
  group took no part). With the default format, prefix first, group 2 is the message:
  \<open>[ML-7] Old work\<close> gives \<open>Old work\<close>. With the format \<open>${message} [${prefix}]\<close>
  group 2 is the prefix: \<open>Old work [ML-7]\<close> gives \<open>ML-7\<close>.
\<close>

theorem extractCurrentMessage_group_2:
  "(exec (outdatedPrefixPattern config) (inputBox_value repo) = None \<longrightarrow>
      extractCurrentMessage repo config = inputBox_value repo) \<and>
   (exec (outdatedPrefixPattern config) (inputBox_value repo) = Some (i, arr) \<and> 2 < length arr \<longrightarrow>
      extractCurrentMessage repo config
        = take i (inputBox_value repo) @ (case arr ! 2 of None \<Rightarrow> [] | Some g \<Rightarrow> g)
            @ drop (i + length (jsString (arr ! 0))) (inputBox_value repo)) \<and>
   extractCurrentMessage (repoOn ''ML-42-x'' ''[ML-7] Old work'') defaultConfig = ''Old work'' \<and>
   (case getExtensionConfig defaultTagPattern ''${message} [${prefix}]'' 1000 of
      Inl e \<Rightarrow> None
    | Inr messageFirst \<Rightarrow>
        Some (extractCurrentMessage (repoOn ''ML-42-x'' ''Old work [ML-7]'') messageFirst))
     = Some ''ML-7''"
proof (intro conjI impI)
  assume "exec (outdatedPrefixPattern config) (inputBox_value repo) = None"
  then show "extractCurrentMessage repo config = inputBox_value repo"
    by (simp add: extractCurrentMessage_def replaceRe_def)
next
  assume a: "exec (outdatedPrefixPattern config) (inputBox_value repo) = Some (i, arr)
               \<and> 2 < length arr"
  then have len: "2 \<le> length (tl arr)" by auto
  have "getSubstitution (jsString (arr ! 0)) (inputBox_value repo) i (tl arr) ''$2''
          = (case arr ! 2 of None \<Rightarrow> [] | Some g \<Rightarrow> g)"
    using len
    by (simp only: getSubstitution_group_2 [OF len]) (cases arr; simp add: numeral_2_eq_2)
  moreover from a have "0 < length arr" and
      "exec (outdatedPrefixPattern config) (inputBox_value repo) = Some (i, arr)"
    by auto
  ultimately show "extractCurrentMessage repo config
        = take i (inputBox_value repo) @ (case arr ! 2 of None \<Rightarrow> [] | Some g \<Rightarrow> g)
            @ drop (i + length (jsString (arr ! 0))) (inputBox_value repo)"
    by (simp add: extractCurrentMessage_def replaceRe_def arrayAt_def Let_def
             del: getSubstitution.simps)
next
  show "extractCurrentMessage (repoOn ''ML-42-x'' ''[ML-7] Old work'') defaultConfig = ''Old work''"
    by code_simp
next
  show "(case getExtensionConfig defaultTagPattern ''${message} [${prefix}]'' 1000 of
      Inl e \<Rightarrow> None
    | Inr messageFirst \<Rightarrow>
        Some (extractCurrentMessage (repoOn ''ML-42-x'' ''Old work [ML-7]'') messageFirst))
     = Some ''ML-7''"
    by code_simp
qed

theorem extractCurrentMessage_group_2_witness:
  "exec (outdatedPrefixPattern defaultConfig) ''Fix the bug'' = None \<and>
   extractCurrentMessage (repoOn ''ML-42-x'' ''Fix the bug'') defaultConfig = ''Fix the bug'' \<and>
   exec (outdatedPrefixPattern defaultConfig) ''see [ML-7] Old work''
     = Some (4, [Some ''[ML-7] Old work'', Some ''ML-7'', Some ''Old work'']) \<and>
   extractCurrentMessage (repoOn ''ML-42-x'' ''see [ML-7] Old work'') defaultConfig
     = ''see Old work''"
proof -
  have e1: "exec (outdatedPrefixPattern defaultConfig) ''Fix the bug'' = None"
    by code_simp
  have e2: "exec (outdatedPrefixPattern defaultConfig) ''see [ML-7] Old work''
     = Some (4, [Some ''[ML-7] Old work'', Some ''ML-7'', Some ''Old work''])"
    by code_simp
  have r1: "extractCurrentMessage (repoOn ''ML-42-x'' ''Fix the bug'') defaultConfig
              = ''Fix the bug''"
    using e1 extractCurrentMessage_group_2
      [of defaultConfig "repoOn ''ML-42-x'' ''Fix the bug''"]
    by simp
  have r2: "extractCurrentMessage (repoOn ''ML-42-x'' ''see [ML-7] Old work'') defaultConfig
              = ''see Old work''"
    using e2 extractCurrentMessage_group_2
      [of defaultConfig "repoOn ''ML-42-x'' ''see [ML-7] Old work''" 4
          "[Some ''[ML-7] Old work'', Some ''ML-7'', Some ''Old work'']"]
    by (simp add: jsString_def)
  from e1 e2 r1 r2 show ?thesis by simp
qed

subsection \<open>Failures of a pass\<close>

text \<open>
  C9. A pass that fails inside the watcher is caught: the watcher comes back as it was,
  with one line added to the output channel, and the next pass runs as it would have
  without the failed one; a pass that succeeds updates the repository and logs nothing.
  The command runs the pass of every repository on its own: what happens to a repository
  does not depend on the others, and every repository adds one line to the output
  channel.
\<close>

theorem safeUpdateCommitMessage_contains_failure:
  "(updateCommitMessage (watcher_repo w) (watcher_config w) currentMessage = Inl e \<longrightarrow>
      safeUpdateCommitMessage w currentMessage out
        = (w, out @ [LOG_PREFIX @ '' [RepositoryWatcher] Error updating commit message: ''
                       @ errorMessage e])) \<and>
   (updateCommitMessage (watcher_repo w) (watcher_config w) currentMessage = Inl e \<longrightarrow>
      safeUpdateCommitMessage (fst (safeUpdateCommitMessage w currentMessage out)) nextMessage out'
        = safeUpdateCommitMessage w nextMessage out') \<and>
   (updateCommitMessage (watcher_repo w) (watcher_config w) currentMessage = Inr repo' \<longrightarrow>
      safeUpdateCommitMessage w currentMessage out = (w\<lparr>watcher_repo := repo'\<rparr>, out)) \<and>
   fst (updateMessageCommand config repos out)
     = map (\<lambda>repo. case updateCommitMessage repo config None of
                      Inr repo' \<Rightarrow> repo' | Inl e \<Rightarrow> repo) repos \<and>
   length (snd (updateMessageCommand config repos out)) = length out + length repos"
proof -
  have cmd1: "fst (updateMessageCommand config repos out)
     = map (\<lambda>repo. case updateCommitMessage repo config None of
                      Inr repo' \<Rightarrow> repo' | Inl e \<Rightarrow> repo) repos" for out
    by (induction repos arbitrary: out) (simp_all add: split_beta split: sum.splits)
  have cmd2: "length (snd (updateMessageCommand config repos out)) = length out + length repos"
    for out
    by (induction repos arbitrary: out) (simp_all add: split_beta split: sum.splits)
  show ?thesis
    using cmd1 cmd2 by (simp add: safeUpdateCommitMessage_def watcherLog_def)
qed

theorem safeUpdateCommitMessage_contains_failure_witness:
  "updateCommitMessage (repoOn ''feat('' ''Test'') wholeBranchConfig None = Inl SyntaxError \<and>
   safeUpdateCommitMessage
     \<lparr>watcher_repo = repoOn ''feat('' ''Test'', watcher_config = wholeBranchConfig,
      gitHeadWatcher = True, refWatcher = None\<rparr> None []
   = (\<lparr>watcher_repo = repoOn ''feat('' ''Test'', watcher_config = wholeBranchConfig,
       gitHeadWatcher = True, refWatcher = None\<rparr>,
      [''[Jira Commit Message] [RepositoryWatcher] Error updating commit message: Invalid regular expression'']) \<and>
   updateCommitMessage (repoOn ''fix'' ''Test'') wholeBranchConfig None
     = Inr ((repoOn ''fix'' ''[fix] Test'')\<lparr>inputBox_writes := 1\<rparr>) \<and>
   safeUpdateCommitMessage
     \<lparr>watcher_repo = repoOn ''fix'' ''Test'', watcher_config = wholeBranchConfig,
      gitHeadWatcher = True, refWatcher = None\<rparr> None []
   = (\<lparr>watcher_repo = (repoOn ''fix'' ''[fix] Test'')\<lparr>inputBox_writes := 1\<rparr>,
       watcher_config = wholeBranchConfig, gitHeadWatcher = True, refWatcher = None\<rparr>, []) \<and>
   updateMessageCommand wholeBranchConfig [repoOn ''feat('' ''Test'', repoOn ''fix'' ''Test''] []
   = ([repoOn ''feat('' ''Test'', (repoOn ''fix'' ''[fix] Test'')\<lparr>inputBox_writes := 1\<rparr>],
      [''[Jira Commit Message] Error executing update command: Invalid regular expression'',
       ''[Jira Commit Message] Commit message updated via command.''])"
proof -
  have f: "updateCommitMessage (repoOn ''feat('' ''Test'') wholeBranchConfig None
             = Inl SyntaxError"
    by code_simp
  have g: "updateCommitMessage (repoOn ''fix'' ''Test'') wholeBranchConfig None
             = Inr ((repoOn ''fix'' ''[fix] Test'')\<lparr>inputBox_writes := 1\<rparr>)"
    by code_simp
  have s1: "safeUpdateCommitMessage
     \<lparr>watcher_repo = repoOn ''feat('' ''Test'', watcher_config = wholeBranchConfig,
      gitHeadWatcher = True, refWatcher = None\<rparr> None []
   = (\<lparr>watcher_repo = repoOn ''feat('' ''Test'', watcher_config = wholeBranchConfig,
       gitHeadWatcher = True, refWatcher = None\<rparr>,
      [''[Jira Commit Message] [RepositoryWatcher] Error updating commit message: Invalid regular expression''])"
    using f safeUpdateCommitMessage_contains_failure
      [of "\<lparr>watcher_repo = repoOn ''feat('' ''Test'', watcher_config = wholeBranchConfig,
            gitHeadWatcher = True, refWatcher = None\<rparr>" None SyntaxError "[]"]
    by (simp add: LOG_PREFIX_def errorMessage_def)
  have s2: "safeUpdateCommitMessage
     \<lparr>watcher_repo = repoOn ''fix'' ''Test'', watcher_config = wholeBranchConfig,
      gitHeadWatcher = True, refWatcher = None\<rparr> None []
   = (\<lparr>watcher_repo = (repoOn ''fix'' ''[fix] Test'')\<lparr>inputBox_writes := 1\<rparr>,
       watcher_config = wholeBranchConfig, gitHeadWatcher = True, refWatcher = None\<rparr>, [])"
    using g safeUpdateCommitMessage_contains_failure
      [of "\<lparr>watcher_repo = repoOn ''fix'' ''Test'', watcher_config = wholeBranchConfig,
            gitHeadWatcher = True, refWatcher = None\<rparr>" None _ "[]" _ _
          "(repoOn ''fix'' ''[fix] Test'')\<lparr>inputBox_writes := 1\<rparr>"]
    by simp
  have c: "updateMessageCommand wholeBranchConfig
             [repoOn ''feat('' ''Test'', repoOn ''fix'' ''Test''] []
   = ([repoOn ''feat('' ''Test'', (repoOn ''fix'' ''[fix] Test'')\<lparr>inputBox_writes := 1\<rparr>],
      [''[Jira Commit Message] Error executing update command: Invalid regular expression'',
       ''[Jira Commit Message] Commit message updated via command.''])"
    by code_simp
  from f g s1 s2 c show ?thesis by blast
qed

subsection \<open>The pattern of the fast path\<close>

lemma parse_literal:
  "list_all literalChar xs \<Longrightarrow>
   parse n (Frame k as cur) stk PNormal (xs @ rest)
     = parse n (Frame k as (rev (map (\<lambda>d. (Chr d, True)) xs) @ cur)) stk PNormal rest"
  by (induction xs arbitrary: cur) (simp_all add: literalChar_def)

lemma seqs_Cons: "rs \<noteq> [] \<Longrightarrow> seqs (r # rs) = Seq r (seqs rs)"
  by (cases rs) simp_all

lemma compile_prefixRegex_literal:
  assumes "list_all literalChar p"
  shows "compile (''^'' @ [BSL] @ ''['' @ p @ [BSL] @ '']'' @ [BSL] @ ''s'')
           = Inr (seqs ([Bol, Chr CHR ''[''] @ map Chr p @ [Chr CHR '']'', Class False [CSpace]]))"
proof -
  have hd_part: "parse 0 (Frame None [] []) [] PNormal (''^'' @ [BSL] @ ''['' @ X)
      = parse 0 (Frame None [] [(Chr CHR ''['', True), (Bol, False)]) [] PNormal X" for X
    by (simp add: atomEscape_def classEscape_def isDigit_def)
  have tl_part: "parse 0 (Frame None [] cur) [] PNormal ([BSL] @ '']'' @ [BSL] @ ''s'')
      = Inr (seqs (rev (map fst cur) @ [Chr CHR '']'', Class False [CSpace]]))" for cur
    by (simp add: atomEscape_def classEscape_def isDigit_def)
  show ?thesis
    unfolding compile_def
    using hd_part [of "p @ [BSL] @ '']'' @ [BSL] @ ''s''"]
          parse_literal [OF assms, of 0 None "[]" _ "[]" "[BSL] @ '']'' @ [BSL] @ ''s''"]
          tl_part
    by (simp add: rev_map comp_def)
qed

lemma backtrack_Seq_Chr:
  "backtrack (Seq (Chr a) R) p s c
     = (case s of [] \<Rightarrow> [] | y # ys \<Rightarrow> if y = a then backtrack R (Some y) ys c else [])"
  by (cases s) simp_all

lemma backtrack_chars:
  "backtrack (foldr (\<lambda>x r. Seq (Chr x) r) xs R) p (xs @ s) c
     = backtrack R (if xs = [] then p else Some (last xs)) s c"
  by (induction xs arbitrary: p) (simp_all add: backtrack_Seq_Chr del: backtrack.simps)

lemma seqs_chars:
  "tl_rs \<noteq> [] \<Longrightarrow> seqs (map Chr xs @ tl_rs) = foldr (\<lambda>x r. Seq (Chr x) r) xs (seqs tl_rs)"
  by (induction xs) (simp_all add: seqs_Cons)

lemma fast_path_outcome:
  "backtrack (seqs ([Bol, Chr CHR ''[''] @ map Chr p @ [Chr CHR '']'', Class False [CSpace]]))
     None (''['' @ p @ ''] '' @ rest) c = [(Some CHR '' '', rest, c)]"
proof -
  have "backtrack (seqs (map Chr p @ [Chr CHR '']'', Class False [CSpace]])) q
          (p @ ''] '' @ rest) c = [(Some CHR '' '', rest, c)]" for q
    by (simp add: seqs_chars backtrack_chars isWhiteSpace_def del: backtrack.simps)
       (simp add: backtrack_Seq_Chr isWhiteSpace_def)
  then show ?thesis
    by (simp add: seqs_Cons)
qed

lemma fast_path_test:
  "test (seqs ([Bol, Chr CHR ''[''] @ map Chr p @ [Chr CHR '']'', Class False [CSpace]]))
     (''['' @ p @ ''] '' @ rest)"
  unfolding test_def exec_def
  by (subst execFrom.simps) (simp add: fast_path_outcome del: backtrack.simps append.simps)

subsection \<open>Rendering a format that begins with the bracketed prefix\<close>

lemma getSubstitution_plain:
  "CHR ''$'' \<notin> set r \<Longrightarrow> getSubstitution matched str position captures r = r"
  by (induction r) auto

lemma literal_no_dollar: "list_all literalChar p \<Longrightarrow> CHR ''$'' \<notin> set p"
  by (induction p) (auto simp: literalChar_def)

lemma indexOf_skip:
  "CHR ''$'' \<notin> set xs \<Longrightarrow>
   indexOf (xs @ s) (CHR ''$'' # pat)
     = map_option (\<lambda>i. length xs + i) (indexOf s (CHR ''$'' # pat))"
  by (induction xs; cases "indexOf s (CHR ''$'' # pat)") (auto simp: startsWith_def)

lemma render_bracket_format:
  assumes "CHR ''$'' \<notin> set p"
  shows "\<exists>rest. replaceStr (replaceStr (''[${prefix}] '' @ tail) ''${prefix}'' p)
                   ''${message}'' w
                 = ''['' @ p @ ''] '' @ rest"
proof -
  have i1: "indexOf (''[${prefix}] '' @ tail) ''${prefix}'' = Some 1"
    by (simp add: startsWith_def)
  have step1: "replaceStr (''[${prefix}] '' @ tail) ''${prefix}'' p
                 = (''['' @ p @ ''] '') @ tail"
    unfolding replaceStr_def i1 getSubstitution_plain [OF assms]
    by simp
  from assms have nd: "CHR ''$'' \<notin> set (''['' @ p @ ''] '')"
    by simp
  show ?thesis
  proof (cases "indexOf tail ''${message}''")
    case None
    then have "indexOf ((''['' @ p @ ''] '') @ tail) ''${message}'' = None"
      unfolding indexOf_skip [OF nd] by simp
    then have "replaceStr ((''['' @ p @ ''] '') @ tail) ''${message}'' w
                 = ''['' @ p @ ''] '' @ tail"
      unfolding replaceStr_def by simp
    with step1 show ?thesis by simp
  next
    case (Some j)
    then have "indexOf ((''['' @ p @ ''] '') @ tail) ''${message}''
                 = Some (length (''['' @ p @ ''] '') + j)"
      unfolding indexOf_skip [OF nd] by simp
    then have "replaceStr ((''['' @ p @ ''] '') @ tail) ''${message}'' w
          = (''['' @ p @ ''] '')
            @ (take j tail
               @ getSubstitution ''${message}'' ((''['' @ p @ ''] '') @ tail)
                   (length (''['' @ p @ ''] '') + j) [] w
               @ drop (length (''['' @ p @ ''] '') + j + length ''${message}'')
                   ((''['' @ p @ ''] '') @ tail))"
      unfolding replaceStr_def by (simp del: getSubstitution.simps)
    with step1 show ?thesis by (metis append.assoc)
  qed
qed

text \<open>
  What \<open>getCommitMessage\<close> computes on a branch that the prefix pattern matches, when
  the prefix has literal characters only: the pattern of the fast path compiles, and the
  result is the message or the rendered format.
\<close>

lemma getCommitMessage_match:
  assumes ex: "exec (commitMessagePrefixPattern config) branch = Some (i, prefixMatch)"
    and lit: "list_all literalChar (jsString (arrayAt prefixMatch 1))"
  shows "getCommitMessage branch msg config =
     Inr (if test (seqs ([Bol, Chr CHR ''['']
                          @ map Chr (jsString (arrayAt prefixMatch 1))
                          @ [Chr CHR '']'', Class False [CSpace]])) msg
          then msg
          else replaceStr
                 (replaceStr (commitMessageFormat config) ''${prefix}''
                    (jsString (arrayAt prefixMatch 1)))
                 ''${message}''
                 (trim (replaceRe msg (outdatedPrefixPattern config) [])))"
proof -
  from ex have t: "test (commitMessagePrefixPattern config) branch"
    by (simp add: test_def)
  show ?thesis
    unfolding getCommitMessage_def prefixRegexSource_def
    by (simp only: t ex compile_prefixRegex_literal [OF lit] Let_def
          not_True_eq_False if_False option.case prod.case sum.case)
       (simp only: if_distrib [where f = Inr])
qed

lemma getCommitMessage_tagged:
  assumes ex: "exec (commitMessagePrefixPattern config) branch = Some (i, prefixMatch)"
    and lit: "list_all literalChar (jsString (arrayAt prefixMatch 1))"
  shows "getCommitMessage branch (''['' @ jsString (arrayAt prefixMatch 1) @ ''] '' @ rest) config
           = Inr (''['' @ jsString (arrayAt prefixMatch 1) @ ''] '' @ rest)"
  unfolding getCommitMessage_match [OF ex lit]
  by (simp only: fast_path_test if_True)

lemma getCommitMessage_idempotent_match:
  assumes ex: "exec (commitMessagePrefixPattern config) branch = Some (i, prefixMatch)"
    and lit: "list_all literalChar (jsString (arrayAt prefixMatch 1))"
    and fmt: "commitMessageFormat config = ''[${prefix}] '' @ tail"
  shows "\<exists>r. getCommitMessage branch msg config = Inr r \<and>
             getCommitMessage branch r config = Inr r"
proof -
  note run = getCommitMessage_match [OF ex lit]
  let ?p = "jsString (arrayAt prefixMatch 1)"
  let ?R = "seqs ([Bol, Chr CHR ''[''] @ map Chr ?p @ [Chr CHR '']'', Class False [CSpace]])"
  show ?thesis
  proof (cases "test ?R msg")
    case True
    then have "getCommitMessage branch msg config = Inr msg"
      by (simp only: run if_True)
    then show ?thesis by simp
  next
    case False
    from render_bracket_format [OF literal_no_dollar [OF lit]] obtain rest where
      r: "replaceStr (replaceStr (''[${prefix}] '' @ tail) ''${prefix}'' ?p) ''${message}''
            (trim (replaceRe msg (outdatedPrefixPattern config) []))
          = ''['' @ ?p @ ''] '' @ rest"
      by blast
    from False have first: "getCommitMessage branch msg config = Inr (''['' @ ?p @ ''] '' @ rest)"
      by (simp only: run if_False fmt r)
    from getCommitMessage_tagged [OF ex lit] first show ?thesis by simp
  qed
qed

subsection \<open>The default configuration: what the prefix pattern captures\<close>

lemma star_digit_Nil:
  "backtrack (Star True (Class False [CDigit])) p [] c = [(p, [], c)]"
  by (subst backtrack.simps(10)) (simp add: reset_def)

lemma star_digit_Cons:
  "backtrack (Star True (Class False [CDigit])) p (y # ys) c
     = (if isDigit y then backtrack (Star True (Class False [CDigit])) (Some y) ys c else [])
       @ [(p, y # ys, c)]"
  by (subst backtrack.simps(10)) (simp add: reset_def)

lemma star_digit_outcomes:
  "x \<in> set (backtrack (Star True (Class False [CDigit])) p s c) \<Longrightarrow>
   snd (snd x) = c \<and> (\<exists>ds. list_all isDigit ds \<and> s = ds @ fst (snd x))"
proof (induction s arbitrary: p)
  case Nil
  then show ?case by (simp add: star_digit_Nil)
next
  case (Cons y ys)
  from Cons.prems consider
      (more) "isDigit y" "x \<in> set (backtrack (Star True (Class False [CDigit])) (Some y) ys c)"
    | (stop) "x = (p, y # ys, c)"
    by (auto simp: star_digit_Cons simp del: backtrack.simps split: if_splits)
  then show ?case
  proof cases
    case more
    from Cons.IH [OF more(2)] obtain ds where
      "snd (snd x) = c" "list_all isDigit ds" "ys = ds @ fst (snd x)" by blast
    with more(1) have "list_all isDigit (y # ds) \<and> y # ys = (y # ds) @ fst (snd x)" by simp
    with \<open>snd (snd x) = c\<close> show ?thesis by blast
  next
    case stop
    then have "list_all isDigit [] \<and> y # ys = [] @ fst (snd x)" by simp
    with stop show ?thesis by (metis snd_conv)
  qed
qed

lemma star_any_Nil: "backtrack (Star True AnyChar) p [] c = [(p, [], c)]"
  by (subst backtrack.simps(10)) (simp add: reset_def)

lemma star_any_Cons:
  "backtrack (Star True AnyChar) p (y # ys) c
     = (if isLineTerminator y then [] else backtrack (Star True AnyChar) (Some y) ys c)
       @ [(p, y # ys, c)]"
  by (subst backtrack.simps(10)) (simp add: reset_def)

lemma star_any_caps:
  "x \<in> set (backtrack (Star True AnyChar) p s c) \<Longrightarrow> snd (snd x) = c"
proof (induction s arbitrary: p)
  case Nil
  then show ?case by (simp add: star_any_Nil)
next
  case (Cons y ys)
  then show ?case
    by (auto simp: star_any_Cons simp del: backtrack.simps split: if_splits)
qed

lemma issueKey_outcomes:
  assumes "x \<in> set (backtrack (issueKey ''ML'') p s c)"
  shows "snd (snd x) = c \<and>
         (\<exists>ds. ds \<noteq> [] \<and> list_all isDigit ds \<and> s = ''ML-'' @ ds @ fst (snd x))"
proof -
  have key: "issueKey ''ML'' =
      Seq (Chr CHR ''M'') (Seq (Chr CHR ''L'') (Seq (Chr CHR ''-'')
        (Seq (Class False [CDigit]) (Star True (Class False [CDigit])))))"
    by (simp add: issueKey_def)
  from assms obtain d s2 where s: "s = ''ML-'' @ d # s2" and d: "isDigit d"
    and x: "x \<in> set (backtrack (Star True (Class False [CDigit])) (Some d) s2 c)"
    unfolding key
    by (auto simp: backtrack_Seq_Chr simp del: backtrack.simps split: list.splits if_splits)
       (auto split: list.splits if_splits)
  from star_digit_outcomes [OF x] obtain ds where
    "snd (snd x) = c" "list_all isDigit ds" "s2 = ds @ fst (snd x)" by blast
  with s d have "d # ds \<noteq> [] \<and> list_all isDigit (d # ds) \<and> s = ''ML-'' @ (d # ds) @ fst (snd x)"
    by simp
  with \<open>snd (snd x) = c\<close> show ?thesis by blast
qed

lemma backtrack_Seq_set:
  "x \<in> set (backtrack (Seq a b) p s c) \<longleftrightarrow>
   (\<exists>y \<in> set (backtrack a p s c). x \<in> set (backtrack b (fst y) (fst (snd y)) (snd (snd y))))"
  by simp

lemma backtrack_Group_set:
  "y \<in> set (backtrack (Group i r) p s c) \<longleftrightarrow>
   (\<exists>k \<in> set (backtrack r p s c).
      y = (fst k, fst (snd k),
           (snd (snd k))[i := Some (take (length s - length (fst (snd k))) s)]))"
  by (simp add: image_iff)

lemma take_consumed: "take (length (a @ b) - length b) (a @ b) = a"
  by simp

lemma dash_any_caps:
  assumes "x \<in> set (backtrack (Seq (Chr CHR ''-'') (Star True AnyChar)) p s c)"
  shows "snd (snd x) = c"
proof (cases s)
  case Nil
  with assms show ?thesis by (simp add: backtrack_Seq_Chr del: backtrack.simps)
next
  case (Cons y ys)
  with assms have "x \<in> set (backtrack (Star True AnyChar) (Some y) ys c)"
    by (auto simp: backtrack_Seq_Chr simp del: backtrack.simps split: if_splits)
  then show ?thesis by (rule star_any_caps)
qed

lemma prefix_outcomes:
  assumes "x \<in> set (backtrack (commitMessagePrefixPattern defaultConfig) p s c)"
  shows "\<exists>ds. ds \<noteq> [] \<and> list_all isDigit ds \<and> snd (snd x) = c[1 := Some (''ML-'' @ ds)]"
proof -
  have pat: "commitMessagePrefixPattern defaultConfig
               = Seq (Group 1 (issueKey ''ML'')) (Seq (Chr CHR ''-'') (Star True AnyChar))"
    by (simp add: defaultConfig_def bracketConfig_def)
  from assms obtain y where
    y: "y \<in> set (backtrack (Group 1 (issueKey ''ML'')) p s c)" and
    z: "x \<in> set (backtrack (Seq (Chr CHR ''-'') (Star True AnyChar))
                   (fst y) (fst (snd y)) (snd (snd y)))"
    unfolding pat backtrack_Seq_set [of x "Group 1 (issueKey ''ML'')"] by blast
  from y obtain k where k: "k \<in> set (backtrack (issueKey ''ML'') p s c)"
    and yk: "y = (fst k, fst (snd k),
                  (snd (snd k))[1 := Some (take (length s - length (fst (snd k))) s)])"
    unfolding backtrack_Group_set by blast
  from issueKey_outcomes [OF k] obtain ds where
    ds: "snd (snd k) = c" "ds \<noteq> []" "list_all isDigit ds" "s = ''ML-'' @ ds @ fst (snd k)"
    by blast
  have "take (length ((''ML-'' @ ds) @ fst (snd k)) - length (fst (snd k)))
          ((''ML-'' @ ds) @ fst (snd k)) = ''ML-'' @ ds"
    by (rule take_consumed)
  with ds(4) have "take (length s - length (fst (snd k))) s = ''ML-'' @ ds"
    by simp
  with yk ds have ycaps: "snd (snd y) = c[1 := Some (''ML-'' @ ds)]" by simp
  from dash_any_caps [OF z] ycaps have "snd (snd x) = c[1 := Some (''ML-'' @ ds)]"
    by simp
  with ds(2,3) show ?thesis
    by (intro exI [of _ ds]) simp
qed

lemma execFrom_outcome:
  "execFrom r n i p s = Some (j, arr) \<Longrightarrow>
   \<exists>p0 s0 x. x \<in> set (backtrack r p0 s0 (replicate (Suc n) None)) \<and>
             (\<exists>t. arr = (snd (snd x))[0 := Some t])"
proof (induction s arbitrary: i p)
  case Nil
  show ?case
  proof (cases "backtrack r p [] (replicate (Suc n) None)")
    case Nil
    with Nil.prems show ?thesis
      by (subst (asm) execFrom.simps) (simp del: execFrom.simps replicate.simps)
  next
    case (Cons x xs)
    with Nil.prems have "arr = (snd (snd x))[0 := Some (take (length ([]::string) - length (fst (snd x))) [])]"
      by (subst (asm) execFrom.simps) (simp del: execFrom.simps replicate.simps)
    moreover from Cons have "x \<in> set (backtrack r p [] (replicate (Suc n) None))" by simp
    ultimately show ?thesis by blast
  qed
next
  case (Cons y ys)
  show ?case
  proof (cases "backtrack r p (y # ys) (replicate (Suc n) None)")
    case Nil
    with Cons.prems have "execFrom r n (Suc i) (Some y) ys = Some (j, arr)"
      by (subst (asm) execFrom.simps) (simp del: execFrom.simps replicate.simps)
    from Cons.IH [OF this] show ?thesis .
  next
    case (Cons x xs)
    with Cons.prems have "arr = (snd (snd x))[0 := Some (take (length (y # ys) - length (fst (snd x))) (y # ys))]"
      by (subst (asm) execFrom.simps) (simp del: execFrom.simps replicate.simps)
    moreover from Cons have "x \<in> set (backtrack r p (y # ys) (replicate (Suc n) None))" by simp
    ultimately show ?thesis by blast
  qed
qed

lemma exec_default_prefix:
  assumes "exec (commitMessagePrefixPattern defaultConfig) branch = Some (i, prefixMatch)"
  shows "\<exists>ds. ds \<noteq> [] \<and> list_all isDigit ds \<and> arrayAt prefixMatch 1 = Some (''ML-'' @ ds)"
proof -
  have n: "ngroups (commitMessagePrefixPattern defaultConfig) = 1"
    by code_simp
  from assms have "execFrom (commitMessagePrefixPattern defaultConfig) 1 0 None branch
                     = Some (i, prefixMatch)"
    by (simp only: exec_def n)
  from execFrom_outcome [OF this] obtain p0 s0 x t where
    x: "x \<in> set (backtrack (commitMessagePrefixPattern defaultConfig) p0 s0
                    (replicate (Suc 1) None))"
    and arr: "prefixMatch = (snd (snd x))[0 := Some t]"
    by blast
  from prefix_outcomes [OF x] obtain ds where
    ds: "ds \<noteq> []" "list_all isDigit ds"
        "snd (snd x) = (replicate (Suc 1) None)[1 := Some (''ML-'' @ ds)]"
    by blast
  from arr ds(3) have "arrayAt prefixMatch 1 = Some (''ML-'' @ ds)"
    by (simp add: arrayAt_def)
  with ds(1,2) show ?thesis by blast
qed

lemma default_prefix_literal:
  "list_all isDigit ds \<Longrightarrow> list_all literalChar (''ML-'' @ ds)"
  by (induction ds) (auto simp: literalChar_def isDigit_def)

text \<open>
  C8. With the default configuration, \<open>getCommitMessage\<close> turns \<open>Fix the bug\<close> on
  the branch \<open>ML-42-fix-bug\<close> into \<open>[ML-42] Fix the bug\<close>, and running it on that
  result gives the same text. In general, on a branch that the pattern matches with the
  prefix \<open>prefix\<close>, a message that begins with \<open>[\<close>, the prefix, \<open>]\<close> and one space
  comes back as it is.
\<close>

theorem getCommitMessage_default_tagging:
  "getExtensionConfig defaultTagPattern defaultMsgFormat 1000 = Inr defaultConfig \<and>
   getCommitMessage ''ML-42-fix-bug'' ''Fix the bug'' defaultConfig
     = Inr ''[ML-42] Fix the bug'' \<and>
   getCommitMessage ''ML-42-fix-bug'' ''[ML-42] Fix the bug'' defaultConfig
     = Inr ''[ML-42] Fix the bug'' \<and>
   (exec (commitMessagePrefixPattern defaultConfig) branch = Some (i, prefixMatch) \<and>
    arrayAt prefixMatch 1 = Some prefix \<longrightarrow>
      getCommitMessage branch (''['' @ prefix @ ''] '' @ rest) defaultConfig
        = Inr (''['' @ prefix @ ''] '' @ rest))"
proof (intro conjI impI)
  show "getExtensionConfig defaultTagPattern defaultMsgFormat 1000 = Inr defaultConfig"
    by code_simp
next
  show "getCommitMessage ''ML-42-fix-bug'' ''Fix the bug'' defaultConfig
          = Inr ''[ML-42] Fix the bug''"
    by code_simp
next
  show "getCommitMessage ''ML-42-fix-bug'' ''[ML-42] Fix the bug'' defaultConfig
          = Inr ''[ML-42] Fix the bug''"
    by code_simp
next
  assume a: "exec (commitMessagePrefixPattern defaultConfig) branch = Some (i, prefixMatch) \<and>
             arrayAt prefixMatch 1 = Some prefix"
  then have ex: "exec (commitMessagePrefixPattern defaultConfig) branch = Some (i, prefixMatch)"
    and pm: "arrayAt prefixMatch 1 = Some prefix"
    by simp_all
  from exec_default_prefix [OF ex] pm obtain ds where
    ds: "list_all isDigit ds" and p: "prefix = ''ML-'' @ ds"
    by auto
  from pm have js: "jsString (arrayAt prefixMatch 1) = prefix"
    by (simp add: jsString_def)
  from default_prefix_literal [OF ds] p js
  have lit: "list_all literalChar (jsString (arrayAt prefixMatch 1))"
    by simp
  from getCommitMessage_tagged [OF ex lit, of rest]
  show "getCommitMessage branch (''['' @ prefix @ ''] '' @ rest) defaultConfig
          = Inr (''['' @ prefix @ ''] '' @ rest)"
    by (simp only: js)
qed

theorem getCommitMessage_default_tagging_witness:
  "exec (commitMessagePrefixPattern defaultConfig) ''ML-42-fix-bug''
     = Some (0, [Some ''ML-42-fix-bug'', Some ''ML-42'']) \<and>
   arrayAt [Some ''ML-42-fix-bug'', Some ''ML-42''] 1 = Some ''ML-42'' \<and>
   getCommitMessage ''ML-42-fix-bug'' (''['' @ ''ML-42'' @ ''] '' @ ''Fix the bug'') defaultConfig
     = Inr ''[ML-42] Fix the bug''"
proof -
  have ex: "exec (commitMessagePrefixPattern defaultConfig) ''ML-42-fix-bug''
              = Some (0, [Some ''ML-42-fix-bug'', Some ''ML-42''])"
    by code_simp
  have pm: "arrayAt [Some ''ML-42-fix-bug'', Some ''ML-42''] 1 = Some ''ML-42''"
    by code_simp
  from ex pm getCommitMessage_default_tagging
    [of "''ML-42-fix-bug''" 0 "[Some ''ML-42-fix-bug'', Some ''ML-42'']" "''ML-42''"
        "''Fix the bug''"]
  show ?thesis by simp
qed

subsection \<open>Idempotence\<close>

text \<open>
  C2. \<open>getCommitMessage\<close> is not idempotent. With the pattern \<open>(PP-\d+)-.*\<close> and the
  format \<open>${prefix} ${message}\<close>, on the branch \<open>PP-716-my-branch\<close>, the message
  \<open>Test feature implementation\<close> becomes \<open>PP-716 Test feature implementation\<close>, and
  that text becomes \<open>PP-716 \<close>: the second run replaces the whole match of the
  outdated-prefix pattern, message included, by the empty string. With the default
  pattern and the format \<open>${message} [${prefix}]\<close>, on the branch \<open>ML-42-x\<close>, the
  message \<open>Old work\<close> becomes \<open>Old work [ML-42]\<close>, and that text becomes
  \<open> [ML-42]\<close>.
\<close>

theorem getCommitMessage_not_idempotent:
  "getExtensionConfig (''(PP-'' @ [BSL] @ ''d+)-.*'') ''${prefix} ${message}'' 50
     = Inr plainFormatConfig \<and>
   getCommitMessage ''PP-716-my-branch'' ''Test feature implementation'' plainFormatConfig
     = Inr ''PP-716 Test feature implementation'' \<and>
   getCommitMessage ''PP-716-my-branch'' ''PP-716 Test feature implementation'' plainFormatConfig
     = Inr ''PP-716 '' \<and>
   ''PP-716 '' \<noteq> ''PP-716 Test feature implementation'' \<and>
   (case getExtensionConfig defaultTagPattern ''${message} [${prefix}]'' 1000 of
      Inl e \<Rightarrow> None
    | Inr messageFirst \<Rightarrow>
        Some (getCommitMessage ''ML-42-x'' ''Old work'' messageFirst,
              getCommitMessage ''ML-42-x'' ''Old work [ML-42]'' messageFirst))
     = Some (Inr ''Old work [ML-42]'', Inr '' [ML-42]'')"
  by code_simp

text \<open>
  Where the fast path does make \<open>getCommitMessage\<close> idempotent: it returns a message,
  and running it on that message returns the same message, for every current message
  when the prefix pattern does not match the branch, and when the message format begins
  with \<open>[${prefix}] \<close> and the prefix taken from the branch has literal characters
  only. The default configuration is in these cases for every branch.
\<close>

theorem getCommitMessage_idempotent:
  "(extractedPrefix config branch = None \<longrightarrow>
      (\<exists>r. getCommitMessage branch msg config = Inr r \<and>
            getCommitMessage branch r config = Inr r)) \<and>
   (extractedPrefix config branch = Some prefix \<and> list_all literalChar prefix \<and>
    commitMessageFormat config = ''[${prefix}] '' @ tail \<longrightarrow>
      (\<exists>r. getCommitMessage branch msg config = Inr r \<and>
            getCommitMessage branch r config = Inr r)) \<and>
   (\<exists>r. getCommitMessage branch msg defaultConfig = Inr r \<and>
         getCommitMessage branch r defaultConfig = Inr r)"
proof -
  have none: "\<exists>r. getCommitMessage branch msg cfg = Inr r \<and>
                  getCommitMessage branch r cfg = Inr r"
    if "extractedPrefix cfg branch = None" for cfg
  proof -
    from that have "exec (commitMessagePrefixPattern cfg) branch = None"
      by (simp add: extractedPrefix_def split: option.splits prod.splits)
    then have "getCommitMessage branch m cfg = Inr m" for m
      by (simp add: getCommitMessage_def test_def)
    then show ?thesis by simp
  qed
  have some: "\<exists>r. getCommitMessage branch msg cfg = Inr r \<and>
                  getCommitMessage branch r cfg = Inr r"
    if p: "extractedPrefix cfg branch = Some q" and lit: "list_all literalChar q"
      and fmt: "commitMessageFormat cfg = ''[${prefix}] '' @ tl_fmt" for cfg q tl_fmt
  proof -
    from p obtain i prefixMatch where
      ex: "exec (commitMessagePrefixPattern cfg) branch = Some (i, prefixMatch)" and
      q: "q = jsString (arrayAt prefixMatch 1)"
      by (auto simp: extractedPrefix_def split: option.splits prod.splits)
    from lit q have "list_all literalChar (jsString (arrayAt prefixMatch 1))"
      by simp
    from getCommitMessage_idempotent_match [OF ex this fmt] show ?thesis .
  qed
  have dflt: "\<exists>r. getCommitMessage branch msg defaultConfig = Inr r \<and>
                  getCommitMessage branch r defaultConfig = Inr r"
  proof (cases "extractedPrefix defaultConfig branch")
    case None
    then show ?thesis by (rule none)
  next
    case (Some q)
    then obtain i prefixMatch where
      ex: "exec (commitMessagePrefixPattern defaultConfig) branch = Some (i, prefixMatch)" and
      q: "q = jsString (arrayAt prefixMatch 1)"
      by (auto simp: extractedPrefix_def split: option.splits prod.splits)
    from exec_default_prefix [OF ex] obtain ds where
      ds: "list_all isDigit ds" and pm: "arrayAt prefixMatch 1 = Some (''ML-'' @ ds)"
      by blast
    from q pm default_prefix_literal [OF ds] have lit: "list_all literalChar q"
      by (simp add: jsString_def)
    have fmt: "commitMessageFormat defaultConfig = ''[${prefix}] '' @ ''${message}''"
      by (simp add: defaultConfig_def bracketConfig_def defaultMsgFormat_def)
    from Some lit fmt show ?thesis by (rule some)
  qed
  from none some dflt show ?thesis by blast
qed

theorem getCommitMessage_idempotent_witness:
  "extractedPrefix plainFormatConfig ''XY-7160-my-branch'' = None \<and>
   (\<exists>r. getCommitMessage ''XY-7160-my-branch'' ''PP-716 Test'' plainFormatConfig = Inr r \<and>
        getCommitMessage ''XY-7160-my-branch'' r plainFormatConfig = Inr r) \<and>
   extractedPrefix wholeBranchConfig ''fix'' = Some ''fix'' \<and>
   list_all literalChar ''fix'' \<and>
   commitMessageFormat wholeBranchConfig = ''[${prefix}] '' @ ''${message}'' \<and>
   (\<exists>r. getCommitMessage ''fix'' ''Test'' wholeBranchConfig = Inr r \<and>
        getCommitMessage ''fix'' r wholeBranchConfig = Inr r) \<and>
   getCommitMessage ''fix'' ''Test'' wholeBranchConfig = Inr ''[fix] Test'' \<and>
   getCommitMessage ''fix'' ''[fix] Test'' wholeBranchConfig = Inr ''[fix] Test''"
proof -
  have n: "extractedPrefix plainFormatConfig ''XY-7160-my-branch'' = None"
    by code_simp
  have p: "extractedPrefix wholeBranchConfig ''fix'' = Some ''fix''"
    by code_simp
  have l: "list_all literalChar ''fix''"
    by code_simp
  have f: "commitMessageFormat wholeBranchConfig = ''[${prefix}] '' @ ''${message}''"
    by code_simp
  have r1: "\<exists>r. getCommitMessage ''XY-7160-my-branch'' ''PP-716 Test'' plainFormatConfig = Inr r \<and>
        getCommitMessage ''XY-7160-my-branch'' r plainFormatConfig = Inr r"
    using n getCommitMessage_idempotent
      [of plainFormatConfig "''XY-7160-my-branch''" "''PP-716 Test''"]
    by blast
  have r2: "\<exists>r. getCommitMessage ''fix'' ''Test'' wholeBranchConfig = Inr r \<and>
        getCommitMessage ''fix'' r wholeBranchConfig = Inr r"
    using p l f getCommitMessage_idempotent
      [of wholeBranchConfig "''fix''" "''Test''" "''fix''" "''${message}''"]
    by blast
  have e1: "getCommitMessage ''fix'' ''Test'' wholeBranchConfig = Inr ''[fix] Test''"
    by code_simp
  have e2: "getCommitMessage ''fix'' ''[fix] Test'' wholeBranchConfig = Inr ''[fix] Test''"
    by code_simp
  from n p l f r1 r2 e1 e2 show ?thesis by (intro conjI)
qed

subsection \<open>The configuration update\<close>

















end
